theory Spec2Isabelle
  imports Main "HOL-Library.AList" "HOL-Library.Sublist" "HOL-Library.Char_ord"
    "HOL-Library.List_Lexorder"
begin

section \<open>Path functions of the Python library (posixpath)\<close>

text \<open>
  The copier computes every destination with \<open>os.path\<close>. These functions are not part of
  the repository; they are written out here after the library's POSIX implementation, on
  strings as character lists.
\<close>

fun split_sep :: "string \<Rightarrow> string list" where
  "split_sep [] = [[]]"
| "split_sep (c # cs) =
     (if c = CHR ''/'' then [] # split_sep cs
      else (case split_sep cs of [] \<Rightarrow> [[c]] | x # xs \<Rightarrow> (c # x) # xs))"

fun join_sep :: "string list \<Rightarrow> string" where
  "join_sep [] = []"
| "join_sep [x] = x"
| "join_sep (x # y # ys) = x @ ''/'' @ join_sep (y # ys)"

definition isabs :: "string \<Rightarrow> bool" where
  "isabs s = prefix ''/'' s"

text \<open>\<open>os.path.join(a, b)\<close>; a call with more arguments folds this from the left.\<close>

definition join :: "string \<Rightarrow> string \<Rightarrow> string" where
  "join a b =
     (if prefix ''/'' b then b
      else if a = [] \<or> suffix ''/'' a then a @ b
      else a @ ''/'' @ b)"

definition basename :: "string \<Rightarrow> string" where
  "basename p = rev (takeWhile (\<lambda>c. c \<noteq> CHR ''/'') (rev p))"

definition dirname :: "string \<Rightarrow> string" where
  "dirname p =
     (let head = rev (dropWhile (\<lambda>c. c \<noteq> CHR ''/'') (rev p))
      in if head \<noteq> [] \<and> head \<noteq> replicate (length head) (CHR ''/'')
         then rev (dropWhile (\<lambda>c. c = CHR ''/'') (rev head))
         else head)"

definition initial_slashes :: "string \<Rightarrow> nat" where
  "initial_slashes path =
     (if prefix ''/'' path
      then (if prefix ''//'' path \<and> \<not> prefix ''///'' path then 2 else 1)
      else 0)"

fun norm_comps :: "bool \<Rightarrow> string list \<Rightarrow> string list \<Rightarrow> string list" where
  "norm_comps ini new_comps [] = new_comps"
| "norm_comps ini new_comps (cmp # comps) =
     (if cmp = [] \<or> cmp = ''.'' then norm_comps ini new_comps comps
      else if cmp \<noteq> ''..'' \<or> (\<not> ini \<and> new_comps = [])
                \<or> (new_comps \<noteq> [] \<and> last new_comps = ''..'')
        then norm_comps ini (new_comps @ [cmp]) comps
      else if new_comps \<noteq> [] then norm_comps ini (butlast new_comps) comps
      else norm_comps ini new_comps comps)"

definition normpath :: "string \<Rightarrow> string" where
  "normpath path =
     (if path = [] then ''.''
      else
        let ini = initial_slashes path;
            p = replicate ini (CHR ''/'') @ join_sep (norm_comps (ini \<noteq> 0) [] (split_sep path))
        in if p = [] then ''.'' else p)"

text \<open>\<open>os.path.abspath\<close>, with the process's working directory as a parameter.\<close>

definition abspath :: "string \<Rightarrow> string \<Rightarrow> string" where
  "abspath cwd path = normpath (if isabs path then path else join cwd path)"

fun commonprefix :: "string list \<Rightarrow> string list \<Rightarrow> string list" where
  "commonprefix (x # xs) (y # ys) = (if x = y then x # commonprefix xs ys else [])"
| "commonprefix _ _ = []"

fun join_list :: "string list \<Rightarrow> string" where
  "join_list [] = []"
| "join_list (x # xs) = foldl join x xs"

text \<open>
  \<open>os.path.relpath(path, start)\<close>. The library raises \<open>ValueError\<close> on an empty
  \<open>path\<close>: \<open>relpath_e\<close> below, after the error type, has that branch.
\<close>

definition relpath :: "string \<Rightarrow> string \<Rightarrow> string \<Rightarrow> string" where
  "relpath cwd path start =
     (let start_list = filter (\<lambda>x. x \<noteq> []) (split_sep (abspath cwd start));
          path_list = filter (\<lambda>x. x \<noteq> []) (split_sep (abspath cwd path));
          i = length (commonprefix start_list path_list);
          rel_list = replicate (length start_list - i) ''..'' @ drop i path_list
      in if rel_list = [] then ''.'' else join_list rel_list)"

section \<open>Errors, warnings and the state of a run\<close>

text \<open>
  \<open>GS.exit_with_error\<close> ends the process with an exit code of \<open>kibot/misc.py\<close>;
  the two codes used by the copier are kept by name. \<open>KiPlotConfigurationError\<close> is the
  exception of user configuration errors; \<open>OSError\<close>, \<open>ValueError\<close> and
  \<open>TypeError\<close> stand for the exceptions the Python library raises, and
  \<open>CollaboratorError\<close> for a failure inside a collaborator of the copier.
\<close>

datatype exit_code = WRONG_ARGUMENTS | INTERNAL_ERROR

datatype error =
    KiPlotConfigurationError string
  | ExitWithError string exit_code
  | OSError string
  | ValueError string
  | TypeError string
  | CollaboratorError string

datatype warning =
    W_COPYOVER string string string
  | W_MISSLIB string
  | W_MISSCMP string string

text \<open>
  The file system: an association list from absolute normalised paths to nodes, in
  directory-listing order. A regular file has an identity (what \<open>os.stat\<close> reports and
  \<open>os.path.samefile\<close> compares) and a content; a symbolic link has the target text it
  was created with.
\<close>

datatype node = File nat string | Dir | Link string

datatype fsop = MkDirs string | Remove string | Symlink string string | Copy2 string string

text \<open>An entry of a library table (\<open>LibAlias\<close> of \<open>kibot/kicad/config.py\<close>).\<close>

record LibAlias =
  alias_name :: string
  legacy :: bool
  alias_type :: string
  options :: string
  alias_descr :: string
  uri :: string

text \<open>
  The state of a run: the working directory and the file system, the \<open>_done\<close> flags of
  the outputs, and what the run has emitted so far: the outputs executed, the warnings
  logged, the mutations made by the copier, and the library tables handed to the table
  writer \<open>KiConf.save_fp_lib_aliases(fname, aliases, is_fp)\<close>.
\<close>

record world =
  cwd :: string
  fs :: "(string \<times> node) list"
  next_ino :: nat
  done_outputs :: "string list"
  executed :: "string list"
  warnings :: "warning list"
  ops :: "fsop list"
  lib_tables :: "(string \<times> bool \<times> (string \<times> LibAlias) list) list"

definition key :: "world \<Rightarrow> string \<Rightarrow> string" where
  "key w p = abspath (cwd w) p"

text \<open>\<open>lookup\<close> is \<open>os.lstat\<close>; the empty path names nothing.\<close>

definition lookup :: "world \<Rightarrow> string \<Rightarrow> node option" where
  "lookup w p = (if p = [] then None else map_of (fs w) (key w p))"

text \<open>
  Following symbolic links, as \<open>stat\<close> does: at most 40 links (the kernel's limit), the
  target of a link being relative to the link's directory. Links in the directory part of a
  path are not followed.
\<close>

fun follow :: "nat \<Rightarrow> (string \<times> node) list \<Rightarrow> string \<Rightarrow> (string \<times> node) option" where
  "follow 0 al k = None"
| "follow (Suc n) al k =
     (case map_of al k of
        None \<Rightarrow> None
      | Some (Link t) \<Rightarrow> follow n al (normpath (join (dirname k) t))
      | Some nd \<Rightarrow> Some (k, nd))"

definition stat :: "world \<Rightarrow> string \<Rightarrow> (string \<times> node) option" where
  "stat w p = (if p = [] then None else follow 40 (fs w) (key w p))"

definition isfile :: "world \<Rightarrow> string \<Rightarrow> bool" where
  "isfile w p = (case stat w p of Some (_, File _ _) \<Rightarrow> True | _ \<Rightarrow> False)"

definition isdir :: "world \<Rightarrow> string \<Rightarrow> bool" where
  "isdir w p = (case stat w p of Some (_, Dir) \<Rightarrow> True | _ \<Rightarrow> False)"

definition islink :: "world \<Rightarrow> string \<Rightarrow> bool" where
  "islink w p = (case lookup w p of Some (Link _) \<Rightarrow> True | _ \<Rightarrow> False)"

text \<open>Writing a regular file: an existing file keeps its identity, a new one gets a fresh one.\<close>

definition write_file :: "string \<Rightarrow> string \<Rightarrow> world \<Rightarrow> world" where
  "write_file p content w =
     (case stat w p of
        Some (k, File i _) \<Rightarrow> w\<lparr>fs := AList.update k (File i content) (fs w)\<rparr>
      | _ \<Rightarrow> w\<lparr>fs := AList.update (key w p) (File (next_ino w) content) (fs w),
               next_ino := Suc (next_ino w)\<rparr>)"

text \<open>
  \<open>os.path.realpath\<close>: the path reached through the links of the last component;
  \<open>os.path.samefile\<close>: both paths are looked up with \<open>stat\<close> and their identities
  compared, \<open>None\<close> standing for the \<open>FileNotFoundError\<close> of a path that leads
  nowhere.
\<close>

fun resolve :: "nat \<Rightarrow> (string \<times> node) list \<Rightarrow> string \<Rightarrow> string" where
  "resolve 0 al k = k"
| "resolve (Suc n) al k =
     (case map_of al k of
        Some (Link t) \<Rightarrow> resolve n al (normpath (join (dirname k) t))
      | _ \<Rightarrow> k)"

definition realpath :: "world \<Rightarrow> string \<Rightarrow> string" where
  "realpath w p = resolve 40 (fs w) (key w p)"

fun ident :: "string \<times> node \<Rightarrow> nat + string" where
  "ident (k, File i _) = Inl i"
| "ident (k, _) = Inr k"

definition samefile :: "world \<Rightarrow> string \<Rightarrow> string \<Rightarrow> bool option" where
  "samefile w a b =
     (case stat w a of
        None \<Rightarrow> None
      | Some x \<Rightarrow> (case stat w b of None \<Rightarrow> None | Some y \<Rightarrow> Some (ident x = ident y)))"

text \<open>
  \<open>os.makedirs(name, exist_ok)\<close>: every missing directory on the way to \<open>name\<close> is
  created; a component that exists and is no directory is an error, and so is an existing
  \<open>name\<close> unless \<open>exist_ok\<close> allows a directory there.
\<close>

definition ancestors :: "string \<Rightarrow> string list" where
  "ancestors k =
     map (\<lambda>cs. ''/'' @ join_sep cs) (tl (prefixes (filter (\<lambda>x. x \<noteq> []) (split_sep k))))"

fun mkdir_all :: "string list \<Rightarrow> (string \<times> node) list \<Rightarrow> error + (string \<times> node) list" where
  "mkdir_all [] al = Inr al"
| "mkdir_all (d # ds) al =
     (case follow 40 al d of
        Some (_, Dir) \<Rightarrow> mkdir_all ds al
      | Some _ \<Rightarrow> Inl (OSError ''NotADirectoryError'')
      | None \<Rightarrow>
          (case map_of al d of
             Some _ \<Rightarrow> Inl (OSError ''FileExistsError'')
           | None \<Rightarrow> mkdir_all ds (al @ [(d, Dir)])))"

definition makedirs :: "bool \<Rightarrow> string \<Rightarrow> world \<Rightarrow> (error + unit) \<times> world" where
  "makedirs exist_ok p w =
     (if lookup w p \<noteq> None
      then (if exist_ok \<and> isdir w p then (Inr (), w)
            else (Inl (OSError ''FileExistsError''), w))
      else (case mkdir_all (ancestors (key w p)) (fs w) of
              Inl e \<Rightarrow> (Inl e, w)
            | Inr al \<Rightarrow> (Inr (), w\<lparr>fs := al, ops := ops w @ [MkDirs p]\<rparr>)))"

text \<open>\<open>os.remove\<close>, \<open>os.symlink\<close> and \<open>shutil.copy2\<close>.\<close>

definition remove :: "string \<Rightarrow> world \<Rightarrow> (error + unit) \<times> world" where
  "remove p w =
     (case lookup w p of
        None \<Rightarrow> (Inl (OSError ''FileNotFoundError''), w)
      | Some Dir \<Rightarrow> (Inl (OSError ''IsADirectoryError''), w)
      | Some _ \<Rightarrow> (Inr (), w\<lparr>fs := AList.delete (key w p) (fs w), ops := ops w @ [Remove p]\<rparr>))"

definition symlink :: "string \<Rightarrow> string \<Rightarrow> world \<Rightarrow> (error + unit) \<times> world" where
  "symlink target p w =
     (case lookup w p of
        Some _ \<Rightarrow> (Inl (OSError ''FileExistsError''), w)
      | None \<Rightarrow> (Inr (), w\<lparr>fs := AList.update (key w p) (Link target) (fs w),
                              ops := ops w @ [Symlink target p]\<rparr>))"

definition copy2 :: "string \<Rightarrow> string \<Rightarrow> world \<Rightarrow> (error + unit) \<times> world" where
  "copy2 src dst w =
     (let dst' = (if isdir w dst then join dst (basename src) else dst)
      in case stat w src of
           Some (_, File _ content) \<Rightarrow>
             (if samefile w src dst' = Some True then (Inl (OSError ''SameFileError''), w)
              else if isdir w dst' then (Inl (OSError ''IsADirectoryError''), w)
              else (Inr (), (write_file dst' content w)\<lparr>ops := ops w @ [Copy2 src dst]\<rparr>))
         | Some _ \<Rightarrow> (Inl (OSError ''IsADirectoryError''), w)
         | None \<Rightarrow> (Inl (OSError ''FileNotFoundError''), w))"

section \<open>Shell patterns: \<open>fnmatch\<close> and \<open>glob\<close>\<close>

text \<open>
  The wildcards \<open>*\<close> and \<open>?\<close> of \<open>fnmatch\<close>; bracket expressions are not modelled
  and match themselves. \<open>fnmatch name pat\<close> has the argument order of the library.
\<close>

fun wild :: "string \<Rightarrow> string \<Rightarrow> bool" where
  "wild [] s = (s = [])"
| "wild (p # ps) [] = (p = CHR ''*'' \<and> wild ps [])"
| "wild (p # ps) (c # cs) =
     (if p = CHR ''*'' then wild ps (c # cs) \<or> wild (p # ps) cs
      else (p = CHR ''?'' \<or> p = c) \<and> wild ps cs)"

definition fnmatch :: "string \<Rightarrow> string \<Rightarrow> bool" where
  "fnmatch nm pat = wild pat nm"

definition fnmatch_filter :: "string list \<Rightarrow> string \<Rightarrow> string list" where
  "fnmatch_filter names pat = filter (\<lambda>nm. fnmatch nm pat) names"

text \<open>
  \<open>glob.iglob(pattern, recursive=True)\<close> over the paths of the file system, in listing
  order. A component without wildcard matches itself; one with wildcards does not match a
  name starting with a dot unless it starts with a dot itself; \<open>**\<close> stands for any
  number of directory levels that are not hidden. The pattern is compared with the
  normalised paths of the file system.
\<close>

definition has_magic :: "string \<Rightarrow> bool" where
  "has_magic s = (\<exists>c\<in>set s. c = CHR ''*'' \<or> c = CHR ''?'' \<or> c = CHR ''['')"

definition ishidden :: "string \<Rightarrow> bool" where
  "ishidden s = prefix ''.'' s"

definition glob_comp :: "string \<Rightarrow> string \<Rightarrow> bool" where
  "glob_comp pat c =
     (if has_magic pat then (ishidden pat \<or> \<not> ishidden c) \<and> fnmatch c pat else pat = c)"

fun glob_comps :: "string list \<Rightarrow> string list \<Rightarrow> bool" where
  "glob_comps [] cs = (cs = [])"
| "glob_comps (p # ps) [] = (p = ''**'' \<and> glob_comps ps [])"
| "glob_comps (p # ps) (c # cs) =
     (if p = ''**''
      then glob_comps ps (c # cs) \<or> (\<not> ishidden c \<and> glob_comps (p # ps) cs)
      else glob_comp p c \<and> glob_comps ps cs)"

definition glob :: "world \<Rightarrow> string \<Rightarrow> string list" where
  "glob w pat =
     map fst (filter (\<lambda>(k, n). glob_comps (split_sep pat) (split_sep k)) (fs w))"

section \<open>Outputs and the on-demand run of a producer\<close>

text \<open>
  A registered output, as far as the copier sees it: its name, the text \<open>str(out)\<close> used in
  messages, the list \<open>out.get_targets(out_dir)\<close> of the files it declares, and the files
  its run writes.
\<close>

record reg_output =
  name :: string
  descr :: string
  targets :: "string list"
  creates :: "string list"

definition get_output :: "reg_output list \<Rightarrow> string \<Rightarrow> reg_output option" where
  "get_output reg n = find (\<lambda>out. name out = n) reg"

definition is_done :: "world \<Rightarrow> reg_output \<Rightarrow> bool" where
  "is_done w out = (name out \<in> set (done_outputs w))"

text \<open>
  Modelled from the spec: \<open>run_output\<close> of \<open>kibot/kiplot.py\<close>, which is not under
  \<open>src/\<close>. The spec has the runner execute an output that is not yet done and mark it
  done, the flag gating at most one execution per output and run. The run of the producer
  itself is the writing of its files.
\<close>

definition run_output :: "reg_output \<Rightarrow> world \<Rightarrow> world" where
  "run_output out w =
     (if is_done w out then w
      else (fold (\<lambda>p. write_file p []) (creates out) w)
             \<lparr>executed := executed w @ [name out],
              done_outputs := name out # done_outputs w\<rparr>)"

section \<open>File specifications\<close>

text \<open>
  One entry of the \<open>files\<close> option (class \<open>FilesList\<close>). The regular expression
  \<open>filter\<close> is kept as the predicate \<open>re.compile(f.filter).match\<close>; \<open>append_mode\<close>,
  \<open>output_dir\<close> and \<open>rel_dirs\<close> are the attributes the collector sets on the entry.
\<close>

datatype source_type = Files | Out_files | Output | Models_3d | Project

record FilesList =
  source :: string
  source_type :: source_type
  filter_f :: "string \<Rightarrow> bool"
  dest :: string
  save_pcb :: bool
  append_mode :: bool
  output_dir :: string
  rel_dirs :: "string option list"

section \<open>Files of another output: \<open>get_from_output\<close>\<close>

definition unable_msg :: "string \<Rightarrow> reg_output \<Rightarrow> string" where
  "unable_msg file out = ''Unable to generate `'' @ file @ ''` from '' @ descr out"

definition unknown_msg :: "string \<Rightarrow> string \<Rightarrow> string" where
  "unknown_msg from_output parent =
     ''Unknown output `'' @ from_output @ ''` selected in '' @ parent"

text \<open>The loop over the declared targets (\<open>for file in files_list\<close>).\<close>

fun check_targets :: "reg_output \<Rightarrow> string list \<Rightarrow> world \<Rightarrow> (error + unit) \<times> world" where
  "check_targets out [] w = (Inr (), w)"
| "check_targets out (file # files_list) w =
     (if \<not> isfile w file then
        (let w1 = (if \<not> is_done w out then run_output out w else w)
         in if \<not> isfile w1 file
            then (Inl (ExitWithError (unable_msg file out) INTERNAL_ERROR), w1)
            else check_targets out files_list w1)
      else check_targets out files_list w)"

text \<open>
  \<open>reg\<close> is the registry behind \<open>RegOutput.get_output\<close>, \<open>parent\<close> the text of
  \<open>self._parent\<close>. \<open>config_output\<close> and the dry \<open>get_output_dir\<close> do not touch the
  state kept here.
\<close>

definition get_from_output ::
  "reg_output list \<Rightarrow> string \<Rightarrow> FilesList \<Rightarrow> bool \<Rightarrow> world \<Rightarrow> (error + string list) \<times> world" where
  "get_from_output reg parent f no_out_run w =
     (case get_output reg (source f) of
        None \<Rightarrow> (Inl (ExitWithError (unknown_msg (source f) parent) WRONG_ARGUMENTS), w)
      | Some out \<Rightarrow>
          (let files_list = targets out
           in if \<not> no_out_run
              then (case check_targets out files_list w of
                      (Inl e, w') \<Rightarrow> (Inl e, w')
                    | (Inr _, w') \<Rightarrow> (Inr files_list, w'))
              else (Inr files_list, w)))"

section \<open>The project context and the options of the output\<close>

text \<open>
  What the collector reads from the global state \<open>GS\<close>, from \<open>KiConf\<close> and from the
  board and schematic collaborators, none of them under \<open>src/\<close>: they are parameters.
  \<open>modules\<close> lists the library nickname and the item name of each footprint of the
  board; \<open>download_models\<close> is the list returned by the method of that name for a
  rename filter; \<open>out_dir_expanded\<close> is \<open>self.expand_filename_sch(GS.out_dir)\<close>.
\<close>

record gs =
  pcb_file :: string
  pcb_dir :: "string option"
  sch_dir :: string
  pro_file :: string
  ki6 :: bool
  out_dir_expanded :: string
  models_3d_dir :: string
  party_3rd_dir :: string
  modules :: "(string \<times> string) list"
  fp_nick_to_path :: "string \<Rightarrow> LibAlias option"
  create_fp_lib :: "string \<Rightarrow> string"
  sch_loaded :: bool
  sch_files :: "string list"
  lib_symbol_names :: "(string \<times> string) list"
  download_models :: "string \<Rightarrow> string list"
  copy_project :: "string \<Rightarrow> bool \<Rightarrow> string \<times> string \<times> string"
  fix_page_layout :: "string \<Rightarrow> bool \<Rightarrow> string list"
  expand_filename_both :: "string \<Rightarrow> string"

text \<open>The options \<open>Copy_FilesOptions\<close>, with \<open>self.output_dir\<close> and \<open>self._parent\<close>.\<close>

record copy_options =
  files :: "FilesList list"
  follow_links :: bool
  link_no_copy :: bool
  self_output_dir :: string
  parent :: string

text \<open>The names of KiCad's library tables (constants of \<open>kibot/kicad/config.py\<close>).\<close>

definition FP_LIB_TABLE :: string where
  "FP_LIB_TABLE = ''fp-lib-table''"

definition SYM_LIB_TABLE :: string where
  "SYM_LIB_TABLE = ''sym-lib-table''"

text \<open>
  An extra file of the project mode: a name alone is a file the collector generates, a
  pair is a file to copy.
\<close>

datatype extra = Gen string | Pair string string

text \<open>Sequencing of steps that may fail: the first error ends the sequence.\<close>

definition thn ::
  "(world \<Rightarrow> (error + 'a) \<times> world) \<Rightarrow> ('a \<Rightarrow> world \<Rightarrow> (error + 'b) \<times> world)
     \<Rightarrow> world \<Rightarrow> (error + 'b) \<times> world" where
  "thn m k w = (case m w of (Inl e, w') \<Rightarrow> (Inl e, w') | (Inr x, w') \<Rightarrow> k x w')"

definition relpath_e :: "string \<Rightarrow> string \<Rightarrow> string \<Rightarrow> error + string" where
  "relpath_e wd path start =
     (if path = [] then Inl (ValueError ''no path specified'')
      else Inr (relpath wd path start))"

section \<open>Renaming: \<open>apply_rename\<close> and the destination of a file\<close>

text \<open>
  The loop \<open>for d in rel_dirs: ... else: ...\<close> shared by \<open>apply_rename\<close> and
  \<open>get_files\<close>: the first base directory that is a prefix of the name is stripped, and
  the base name is taken when there is none.
\<close>

fun strip_rel_dirs :: "string \<Rightarrow> string option list \<Rightarrow> string \<Rightarrow> error + string" where
  "strip_rel_dirs wd [] fname = Inr (basename fname)"
| "strip_rel_dirs wd (d # ds) fname =
     (case d of
        None \<Rightarrow> strip_rel_dirs wd ds fname
      | Some d' \<Rightarrow>
          (if prefix d' fname then relpath_e wd fname d'
           else strip_rel_dirs wd ds fname))"


text \<open>The destination computed in \<open>get_files\<close> for a candidate \<open>fname\<close>.\<close>

definition compute_dest ::
  "string \<Rightarrow> FilesList \<Rightarrow> bool \<Rightarrow> bool \<Rightarrow> string \<Rightarrow> string option list \<Rightarrow> string
     \<Rightarrow> error + string" where
  "compute_dest wd f mode_3d mode_project src_dir self_rel_dirs fname =
     (if dest f \<noteq> [] \<and> \<not> append_mode f then Inr (join (dest f) (basename fname))
      else if (mode_3d \<or> mode_project) \<and> isabs fname then
        (case strip_rel_dirs wd self_rel_dirs fname of
           Inl e \<Rightarrow> Inl e
         | Inr d \<Rightarrow> Inr (if append_mode f then join (output_dir f) d else d))
      else relpath_e wd fname src_dir)"

section \<open>Footprints and symbols of the project mode\<close>

text \<open>
  One turn of the loop over the footprints in \<open>copy_footprints\<close>; the accumulator holds
  the dictionary \<open>aliases\<close> (in insertion order), the list \<open>extra_files\<close> and the set
  \<open>added\<close>.
\<close>

definition footprint_step ::
  "gs \<Rightarrow> string \<Rightarrow> string \<Rightarrow> string \<times> string
     \<Rightarrow> ((string \<times> LibAlias) list \<times> extra list \<times> string list) \<times> world
     \<Rightarrow> ((string \<times> LibAlias) list \<times> extra list \<times> string list) \<times> world" where
  "footprint_step g out_lib_base out_lib_base_prj m st =
     (case st of ((aliases, extra_files, added), w) \<Rightarrow>
        (let lib_nick = fst m
         in case fp_nick_to_path g lib_nick of
              None \<Rightarrow>
                ((aliases, extra_files, added),
                 w\<lparr>warnings := warnings w @ [W_MISSLIB lib_nick]\<rparr>)
            | Some src_alias \<Rightarrow>
                (let src_lib = uri src_alias;
                     out_lib = create_fp_lib g (join out_lib_base lib_nick);
                     aliases' =
                       (if map_of aliases lib_nick = None
                        then aliases @
                          [(lib_nick,
                            src_alias\<lparr>uri := join out_lib_base_prj (lib_nick @ ''.pretty'')\<rparr>)]
                        else aliases);
                     nm = snd m;
                     mod_fname = nm @ ''.kicad_mod'';
                     footprint_src = join src_lib mod_fname
                 in if \<not> isfile w footprint_src
                    then ((aliases', extra_files, added),
                          w\<lparr>warnings := warnings w @ [W_MISSCMP nm lib_nick]\<rparr>)
                    else if footprint_src \<notin> set added
                    then ((aliases',
                           extra_files @ [Pair footprint_src (join out_lib mod_fname)],
                           footprint_src # added), w)
                    else ((aliases', extra_files, added), w))))"

definition collect_footprints ::
  "gs \<Rightarrow> string \<Rightarrow> string \<Rightarrow> world
     \<Rightarrow> ((string \<times> LibAlias) list \<times> extra list \<times> string list) \<times> world" where
  "collect_footprints g out_lib_base out_lib_base_prj w =
     fold (footprint_step g out_lib_base out_lib_base_prj) (modules g) (([], [], []), w)"

definition copy_footprints ::
  "copy_options \<Rightarrow> gs \<Rightarrow> string \<Rightarrow> bool \<Rightarrow> world \<Rightarrow> extra list \<times> world" where
  "copy_footprints self g dst dry w =
     (let out_lib_base = join (join (self_output_dir self) dst) ''footprints'';
          out_lib_base_prj = join ''${KIPRJMOD}'' ''footprints''
      in case collect_footprints g out_lib_base out_lib_base_prj w of
           ((aliases, extra_files, added), w1) \<Rightarrow>
             (let table_fname = join (join (self_output_dir self) dst) FP_LIB_TABLE
              in (extra_files @ [Gen table_fname],
                  if \<not> dry
                  then w1\<lparr>lib_tables := lib_tables w1 @ [(table_fname, True, aliases)]\<rparr>
                  else w1)))"

definition symbol_alias :: "string \<Rightarrow> string \<Rightarrow> LibAlias" where
  "symbol_alias out_lib_base_prj lib =
     \<lparr>alias_name = lib, legacy = False, alias_type = ''KiCad'', options = [],
      alias_descr = [], uri = join out_lib_base_prj (lib @ ''.kicad_sym'')\<rparr>"

definition copy_symbols ::
  "copy_options \<Rightarrow> gs \<Rightarrow> string \<Rightarrow> bool \<Rightarrow> world \<Rightarrow> extra list \<times> world" where
  "copy_symbols self g dst dry w =
     (if \<not> sch_loaded g then ([], w)
      else
        (let out_lib_base = join (join (self_output_dir self) dst) ''symbols'';
             out_lib_base_prj = join ''${KIPRJMOD}'' ''symbols'';
             libs = fold (\<lambda>obj ls.
                       (let lib = (if fst obj \<noteq> [] then fst obj else ''locally_edited'')
                        in AList.map_default lib [snd obj] (\<lambda>l. l @ [snd obj]) ls))
                      (lib_symbol_names g) [];
             table_fname = join (join (self_output_dir self) dst) SYM_LIB_TABLE;
             used = filter (\<lambda>lib. lib \<noteq> ''locally_edited'') (map fst libs);
             extra_files = Gen table_fname
                # map (\<lambda>lib. Gen (join out_lib_base (lib @ ''.kicad_sym''))) used
         in if dry then (extra_files, w)
            else (extra_files,
                  w\<lparr>lib_tables := lib_tables w @
                      [(table_fname, False,
                        map (\<lambda>lib. (lib, symbol_alias out_lib_base_prj lib)) used)]\<rparr>)))"

definition add_sch_files :: "string \<Rightarrow> gs \<Rightarrow> string \<Rightarrow> extra list" where
  "add_sch_files wd g dest_dir =
     map (\<lambda>s. Gen (join dest_dir (relpath wd s (sch_dir g)))) (sch_files g)"

section \<open>The 3D models: \<open>get_3d_models\<close>\<close>

text \<open>The STEP or WRL counterpart of one model, when it exists and is not in the list.\<close>

definition counterpart :: "world \<Rightarrow> string list \<Rightarrow> string \<Rightarrow> string list" where
  "counterpart w files_list fn =
     (if suffix ''.wrl'' fn then
        (let fn' = take (length fn - 4) fn @ ''.step''
         in if isfile w fn' \<and> fn' \<notin> set files_list then [fn'] else [])
      else if suffix ''.step'' fn then
        (let fn' = take (length fn - 5) fn @ ''.wrl''
         in if isfile w fn' \<and> fn' \<notin> set files_list then [fn'] else [])
      else [])"

definition counterparts :: "world \<Rightarrow> string list \<Rightarrow> string list" where
  "counterparts w files_list = concat (map (counterpart w files_list) files_list)"

text \<open>
  The block \<open>if f.save_pcb or mode_project\<close>. The board and the schematic are saved by
  their collaborators, whose writes are not followed here; the directory is created by
  the collector itself. Without a schematic \<open>GS.check_sch\<close> ends a project pass, and
  a dry one fails on the missing object.
\<close>

definition project_extras ::
  "copy_options \<Rightarrow> gs \<Rightarrow> FilesList \<Rightarrow> bool \<Rightarrow> bool \<Rightarrow> world
     \<Rightarrow> (error + extra list) \<times> world" where
  "project_extras self g f mode_project dry =
     thn (if mode_project
          then thn (makedirs True (join (self_output_dir self) (dest f)))
                 (\<lambda>_ w. (Inr (join (self_output_dir self) (dest f)), w))
          else (\<lambda>w. (Inr (self_output_dir self), w)))
       (\<lambda>dest_dir w.
          (let fname = join dest_dir (basename (pcb_file g))
           in if mode_project \<and> \<not> sch_loaded g
              then (Inl (CollaboratorError ''no schematic''), w)
              else
                (let sch_extra = (if mode_project then add_sch_files (cwd w) g dest_dir else []);
                     prj = copy_project g fname dry;
                     prj_name = fst prj;
                     prl_name = fst (snd prj);
                     dru_name = snd (snd prj);
                     named = [Gen fname] @ (if prj_name \<noteq> [] then [Gen prj_name] else [])
                        @ (if prl_name \<noteq> [] then [Gen prl_name] else [])
                        @ (if dru_name \<noteq> [] then [Gen dru_name] else []);
                     prj_name_used =
                       (if dry \<and> \<not> isfile w prj_name then pro_file g else prj_name);
                     wks = fix_page_layout g prj_name_used dry;
                     base = sch_extra @ named @ map Gen (filter (\<lambda>x. x \<noteq> []) wks)
                 in if mode_project
                    then (case copy_footprints self g (dest f) dry w of
                            (fp, w2) \<Rightarrow>
                              (case copy_symbols self g (dest f) dry w2 of
                                 (sy, w3) \<Rightarrow> (Inr (base @ fp @ sy), w3)))
                    else (Inr base, w))))"

text \<open>
  \<open>get_3d_models\<close> returns the models, the extra files and the specification with the
  attributes it has set on it.
\<close>

definition get_3d_models ::
  "copy_options \<Rightarrow> string option list \<Rightarrow> gs \<Rightarrow> FilesList \<Rightarrow> bool \<Rightarrow> bool \<Rightarrow> world
     \<Rightarrow> (error + string list \<times> extra list \<times> FilesList) \<times> world" where
  "get_3d_models self self_rel_dirs g f mode_project dry =
     (let f1 = (if mode_project then f\<lparr>output_dir := ''3d_models'', append_mode := True\<rparr>
                else if dest f \<noteq> [] \<and> last (dest f) = CHR ''+''
                  then f\<lparr>append_mode := True, output_dir := butlast (dest f)\<rparr>
                else f\<lparr>append_mode := False, output_dir := dest f\<rparr>);
          f2 = f1\<lparr>rel_dirs := self_rel_dirs\<rparr>;
          files_list = download_models g (source f2)
      in thn (if save_pcb f2 \<or> mode_project then project_extras self g f2 mode_project dry
              else (\<lambda>w. (Inr [], w)))
           (\<lambda>extra_files w.
              (let new_list = counterparts w files_list;
                   f3 = (if mode_project
                         then f2\<lparr>output_dir := join (dest f2) (output_dir f2)\<rparr>
                         else f2)
               in (Inr (files_list @ fnmatch_filter new_list (source f3), extra_files, f3), w))))"

section \<open>The collection pass: \<open>get_files\<close>\<close>

text \<open>The list of base directories \<open>self.rel_dirs\<close>.\<close>

definition base_dirs :: "gs \<Rightarrow> error + string option list" where
  "base_dirs g =
     (case pcb_dir g of
        None \<Rightarrow>
          (if models_3d_dir g \<noteq> [] \<or> party_3rd_dir g \<noteq> []
           then Inl (TypeError ''expected str, bytes or os.PathLike object, not NoneType'')
           else Inr [None])
      | Some pd \<Rightarrow>
          Inr ((if models_3d_dir g \<noteq> [] then [Some (normpath (join pd (models_3d_dir g)))]
                else [])
             @ (if party_3rd_dir g \<noteq> [] then [Some (normpath (join pd (party_3rd_dir g)))]
                else [])
             @ [Some pd]))"

text \<open>The candidates of one specification, by its source type.\<close>

definition candidates ::
  "copy_options \<Rightarrow> gs \<Rightarrow> reg_output list \<Rightarrow> string option list \<Rightarrow> string \<Rightarrow> bool
     \<Rightarrow> FilesList \<Rightarrow> world \<Rightarrow> (error + string list \<times> extra list \<times> FilesList) \<times> world" where
  "candidates self g reg self_rel_dirs src_dir no_out_run f =
     (if source_type f = Output
      then thn (get_from_output reg (parent self) f no_out_run)
             (\<lambda>files_list w. (Inr (files_list, [], f), w))
      else if source_type f = Models_3d \<or> source_type f = Project
      then get_3d_models self self_rel_dirs g f (source_type f = Project) no_out_run
      else (\<lambda>w. (Inr (glob w (join src_dir (expand_filename_both g (source f))), [], f), w)))"

text \<open>The loop \<open>for fname in filter(fil.match, files_list)\<close>, on the filtered list.\<close>

fun adapt_files ::
  "copy_options \<Rightarrow> world \<Rightarrow> FilesList \<Rightarrow> string \<Rightarrow> string option list \<Rightarrow> string list
     \<Rightarrow> error + (string option \<times> string) list" where
  "adapt_files self w f src_dir self_rel_dirs [] = Inr []"
| "adapt_files self w f src_dir self_rel_dirs (fname # rest) =
     (let fname_real = (if follow_links self then realpath w fname else abspath (cwd w) fname)
      in case compute_dest (cwd w) f (source_type f = Models_3d) (source_type f = Project)
                src_dir self_rel_dirs fname of
           Inl e \<Rightarrow> Inl e
         | Inr d \<Rightarrow>
             (case adapt_files self w f src_dir self_rel_dirs rest of
                Inl e \<Rightarrow> Inl e
              | Inr es \<Rightarrow> Inr ((Some fname_real, d) # es)))"

text \<open>The loop over the extra files.\<close>

fun extra_entries :: "(string \<Rightarrow> bool) \<Rightarrow> extra list \<Rightarrow> (string option \<times> string) list" where
  "extra_entries fil [] = []"
| "extra_entries fil (Gen s # xs) =
     (if fil s then (None, s) # extra_entries fil xs else extra_entries fil xs)"
| "extra_entries fil (Pair a b # xs) =
     (if fil a then (Some a, b) # extra_entries fil xs else extra_entries fil xs)"

definition resolve_spec ::
  "copy_options \<Rightarrow> gs \<Rightarrow> reg_output list \<Rightarrow> string option list \<Rightarrow> bool \<Rightarrow> FilesList
     \<Rightarrow> world \<Rightarrow> (error + (string option \<times> string) list) \<times> world" where
  "resolve_spec self g reg self_rel_dirs no_out_run f w =
     (let src_dir = (if source_type f = Out_files \<or> source_type f = Output
                     then out_dir_expanded g else cwd w)
      in if source_type f = Project \<and> \<not> ki6 g
         then (Inl (KiPlotConfigurationError ''The `project` mode needs KiCad 6 or newer''), w)
         else thn (candidates self g reg self_rel_dirs src_dir no_out_run f)
                (\<lambda>c w1.
                   (case c of (files_list, extra_files, f') \<Rightarrow>
                      (case adapt_files self w1 f' src_dir self_rel_dirs
                              (filter (filter_f f') files_list) of
                         Inl e \<Rightarrow> (Inl e, w1)
                       | Inr es \<Rightarrow> (Inr (es @ extra_entries (filter_f f') extra_files), w1))))
                w)"

fun get_files_loop ::
  "copy_options \<Rightarrow> gs \<Rightarrow> reg_output list \<Rightarrow> string option list \<Rightarrow> bool \<Rightarrow> FilesList list
     \<Rightarrow> world \<Rightarrow> (error + (string option \<times> string) list) \<times> world" where
  "get_files_loop self g reg self_rel_dirs no_out_run [] w = (Inr [], w)"
| "get_files_loop self g reg self_rel_dirs no_out_run (f # fl) w =
     (case resolve_spec self g reg self_rel_dirs no_out_run f w of
        (Inl e, w1) \<Rightarrow> (Inl e, w1)
      | (Inr es, w1) \<Rightarrow>
          (case get_files_loop self g reg self_rel_dirs no_out_run fl w1 of
             (Inl e, w2) \<Rightarrow> (Inl e, w2)
           | (Inr rest, w2) \<Rightarrow> (Inr (es @ rest), w2)))"

definition get_files ::
  "copy_options \<Rightarrow> gs \<Rightarrow> reg_output list \<Rightarrow> bool \<Rightarrow> world
     \<Rightarrow> (error + (string option \<times> string) list) \<times> world" where
  "get_files self g reg no_out_run w =
     (case base_dirs g of
        Inl e \<Rightarrow> (Inl e, w)
      | Inr self_rel_dirs \<Rightarrow> get_files_loop self g reg self_rel_dirs no_out_run (files self) w)"


definition get_dependencies ::
  "copy_options \<Rightarrow> gs \<Rightarrow> reg_output list \<Rightarrow> world \<Rightarrow> (error + string list) \<times> world" where
  "get_dependencies self g reg =
     thn (get_files self g reg True)
       (\<lambda>fl w. (Inr (sort (map (\<lambda>e. the (fst e)) (filter (\<lambda>e. fst e \<noteq> None) fl))), w))"

section \<open>The copy: \<open>run\<close>\<close>

definition may_be_rel :: "string \<Rightarrow> string \<Rightarrow> error + string" where
  "may_be_rel wd fl =
     (case relpath_e wd fl ''.'' of
        Inl e \<Rightarrow> Inl e
      | Inr rel_file \<Rightarrow> Inr (if length rel_file < length fl then rel_file else fl))"

text \<open>The warning of two sources copied to one destination.\<close>

definition warn_copyover ::
  "string \<Rightarrow> string \<Rightarrow> string \<Rightarrow> world \<Rightarrow> (error + unit) \<times> world" where
  "warn_copyover src prev dst w =
     (case may_be_rel (cwd w) src of
        Inl e \<Rightarrow> (Inl e, w)
      | Inr a \<Rightarrow>
          (case may_be_rel (cwd w) prev of
             Inl e \<Rightarrow> (Inl e, w)
           | Inr b \<Rightarrow>
               (case may_be_rel (cwd w) dst of
                  Inl e \<Rightarrow> (Inl e, w)
                | Inr c \<Rightarrow> (Inr (), w\<lparr>warnings := warnings w @ [W_COPYOVER a b c]\<rparr>))))"

definition self_copy_msg :: "string \<Rightarrow> string \<Rightarrow> string" where
  "self_copy_msg src dst = ''Trying to copy '' @ src @ '' over itself '' @ dst"

text \<open>
  One turn of the loop \<open>for (src, dst) in files\<close>; \<open>outp\<close> is \<open>output\<close> with the
  separator appended, \<open>copied\<close> the dictionary of the destinations written so far.
\<close>

definition copy_entry ::
  "bool \<Rightarrow> string \<Rightarrow> string option \<times> string \<Rightarrow> (string \<times> string) list \<Rightarrow> world
     \<Rightarrow> (error + (string \<times> string) list) \<times> world" where
  "copy_entry link outp e copied =
     (case fst e of
        None \<Rightarrow> (\<lambda>w. (Inr copied, w))
      | Some src \<Rightarrow>
          (let dst = join outp (snd e);
               dest_dir = dirname dst
           in thn (\<lambda>w. if \<not> isdir w dest_dir then makedirs False dest_dir w else (Inr (), w))
             (\<lambda>_. thn (case map_of copied dst of
                          None \<Rightarrow> (\<lambda>w. (Inr (), w))
                        | Some prev \<Rightarrow> warn_copyover src prev dst)
             (\<lambda>_. thn (\<lambda>w. if samefile w src dst = Some True
                            then (Inl (KiPlotConfigurationError (self_copy_msg src dst)), w)
                            else (Inr (), w))
             (\<lambda>_. thn (\<lambda>w. if isfile w dst \<or> islink w dst then remove dst w else (Inr (), w))
             (\<lambda>_. thn (if link
                        then (\<lambda>w. case relpath_e (cwd w) src (dirname dst) of
                                    Inl er \<Rightarrow> (Inl er, w)
                                  | Inr t \<Rightarrow> symlink t dst w)
                        else copy2 src dst)
             (\<lambda>_ w. (Inr (AList.update dst src copied), w))))))))"

fun copy_loop ::
  "bool \<Rightarrow> string \<Rightarrow> (string option \<times> string) list \<Rightarrow> (string \<times> string) list \<Rightarrow> world
     \<Rightarrow> (error + (string \<times> string) list) \<times> world" where
  "copy_loop link outp [] copied w = (Inr copied, w)"
| "copy_loop link outp (e # es) copied w =
     (case copy_entry link outp e copied w of
        (Inl er, w1) \<Rightarrow> (Inl er, w1)
      | (Inr copied1, w1) \<Rightarrow> copy_loop link outp es copied1 w1)"

text \<open>
  \<open>Copy_FilesOptions.run\<close>, with \<open>self.output_dir\<close> set to the directory as
  \<open>Copy_Files.run\<close> does. The run of the base class before the collection and the removal
  of the downloaded models after the copy belong to the base class and are not followed.
\<close>

definition run ::
  "copy_options \<Rightarrow> gs \<Rightarrow> reg_output list \<Rightarrow> string \<Rightarrow> world \<Rightarrow> (error + unit) \<times> world" where
  "run self g reg outp =
     thn (get_files (self\<lparr>self_output_dir := outp\<rparr>) g reg False)
       (\<lambda>fl. thn (copy_loop (link_no_copy self) (outp @ ''/'') fl [])
          (\<lambda>_ w. (Inr (), w)))"

section \<open>Concrete scenarios\<close>

text \<open>
  A working directory \<open>/w\<close> with an empty output directory \<open>/w/out\<close>, a producer
  output that writes its declared target, one that declares the target but writes nothing,
  and the file specification that asks for the producer's files.
\<close>

definition ex_world :: world where
  "ex_world = \<lparr>cwd = ''/w'', fs = [(''/w/out'', Dir)], next_ino = 1, done_outputs = [],
     executed = [], warnings = [], ops = [], lib_tables = []\<rparr>"


definition ex_idle_producer :: reg_output where
  "ex_idle_producer = \<lparr>name = ''prod'', descr = ''prod'', targets = [''/w/out/x.bin''],
     creates = []\<rparr>"

definition ex_output_spec :: FilesList where
  "ex_output_spec = \<lparr>source = ''prod'', source_type = Output, filter_f = (\<lambda>_. True),
     dest = [], save_pcb = False, append_mode = False, output_dir = [], rel_dirs = []\<rparr>"

definition ex_gs :: gs where
  "ex_gs = \<lparr>pcb_file = ''/proj/board.kicad_pcb'', pcb_dir = Some ''/proj'', sch_dir = ''/proj'',
     pro_file = ''/proj/board.kicad_pro'', ki6 = True, out_dir_expanded = ''/w/out'',
     models_3d_dir = ''3d'', party_3rd_dir = ''3rd'',
     modules = [(''Resistors'', ''R0603''), (''Resistors'', ''R0603''), (''Ghost'', ''X1''), (''Caps'', ''C0402'')],
     fp_nick_to_path = map_of [(''Resistors'', \<lparr>alias_name = ''Resistors'', legacy = False, alias_type = ''KiCad'', options = [], alias_descr = [], uri = ''/lib/Resistors.pretty''\<rparr>),
        (''Caps'', \<lparr>alias_name = ''Caps'', legacy = False, alias_type = ''KiCad'', options = [], alias_descr = [], uri = ''/lib/Caps.pretty''\<rparr>)],
     create_fp_lib = (\<lambda>l. if suffix ''.pretty'' l then l else l @ ''.pretty''),
     sch_loaded = True, sch_files = [''/proj/board.kicad_sch''], lib_symbol_names = [(''Device'', ''R'')],
     download_models = (\<lambda>pat. [''/proj/3d/sub/part.step'']),
     copy_project = (\<lambda>f d. ([], [], [])), fix_page_layout = (\<lambda>p d. []),
     expand_filename_both = (\<lambda>s. s)\<rparr>"

definition ex_csv_world :: world where
  "ex_csv_world = \<lparr>cwd = ''/w'', fs = [(''/w'', Dir), (''/w/a.csv'', File 1 ''A''),
       (''/w/b.csv'', File 2 ''B''), (''/w/c.txt'', File 3 ''C''), (''/w/out'', Dir)],
     next_ino = 4, done_outputs = [], executed = [], warnings = [], ops = [], lib_tables = []\<rparr>"

definition ex_csv_spec :: FilesList where
  "ex_csv_spec = \<lparr>source = ''*.csv'', source_type = Files, filter_f = (\<lambda>_. True),
     dest = [], save_pcb = False, append_mode = False, output_dir = [], rel_dirs = []\<rparr>"


definition ex_options :: "FilesList list \<Rightarrow> copy_options" where
  "ex_options fl = \<lparr>files = fl, follow_links = True, link_no_copy = False,
     self_output_dir = ''/w/out'', parent = ''copy''\<rparr>"

definition ex_self_world :: world where
  "ex_self_world = \<lparr>cwd = ''/w'', fs = [(''/w'', Dir), (''/w/a.csv'', File 1 ''A''),
       (''/w/out'', Dir), (''/w/out/keep.txt'', File 2 ''K'')],
     next_ino = 3, done_outputs = [], executed = [], warnings = [], ops = [], lib_tables = []\<rparr>"

definition ex_out_txt_spec :: FilesList where
  "ex_out_txt_spec = \<lparr>source = ''*.txt'', source_type = Out_files, filter_f = (\<lambda>_. True),
     dest = [], save_pcb = False, append_mode = False, output_dir = [], rel_dirs = []\<rparr>"


text \<open>
  A board whose only model is \<open>/m/a.wrl\<close>, with the STEP counterpart beside it on disk.
\<close>

definition ex_wrl_gs :: gs where
  "ex_wrl_gs = ex_gs\<lparr>download_models := (\<lambda>pat. [''/m/a.wrl''])\<rparr>"

definition ex_wrl_world :: world where
  "ex_wrl_world = \<lparr>cwd = ''/w'', fs = [(''/m'', Dir), (''/m/a.wrl'', File 1 ''W''),
       (''/m/a.step'', File 2 ''S''), (''/w'', Dir), (''/w/out'', Dir)],
     next_ino = 3, done_outputs = [], executed = [], warnings = [], ops = [], lib_tables = []\<rparr>"

definition ex_wrl_spec :: "string \<Rightarrow> FilesList" where
  "ex_wrl_spec pat = \<lparr>source = pat, source_type = Models_3d, filter_f = (\<lambda>_. True),
     dest = [], save_pcb = False, append_mode = False, output_dir = [], rel_dirs = []\<rparr>"

text \<open>The sources of the files to copy among a list of extra files.\<close>

fun extra_sources :: "extra list \<Rightarrow> string list" where
  "extra_sources [] = []"
| "extra_sources (Gen s # xs) = extra_sources xs"
| "extra_sources (Pair a b # xs) = a # extra_sources xs"

text \<open>A file system that holds the two footprints of the libraries known to \<open>ex_gs\<close>.\<close>

definition ex_fp_world :: world where
  "ex_fp_world = \<lparr>cwd = ''/w'', fs = [(''/lib/Resistors.pretty/R0603.kicad_mod'', File 1 ''R''),
       (''/lib/Caps.pretty/C0402.kicad_mod'', File 2 ''C''), (''/w'', Dir), (''/w/out'', Dir)],
     next_ino = 3, done_outputs = [], executed = [], warnings = [], ops = [], lib_tables = []\<rparr>"

text \<open>The working directory of \<open>ex_csv_world\<close> with a subdirectory that holds one more table.\<close>

definition ex_tree_world :: world where
  "ex_tree_world = ex_csv_world\<lparr>fs := fs ex_csv_world
      @ [(''/w/sub'', Dir), (''/w/sub/d.csv'', File 4 ''D''), (''/w/sub/.e.csv'', File 5 ''E'')],
     next_ino := 6\<rparr>"


section \<open>Properties of \<open>get_from_output\<close>\<close>

lemma run_output_is_done: "is_done (run_output out w) out"
  by (simp add: run_output_def is_done_def)


lemma check_targets_done:
  "is_done w out \<Longrightarrow>
   check_targets out fl w =
     (case find (\<lambda>g. \<not> isfile w g) fl of
        None \<Rightarrow> (Inr (), w)
      | Some g \<Rightarrow> (Inl (ExitWithError (unable_msg g out) INTERNAL_ERROR), w))"
  by (induction fl) auto

lemma check_targets_not_done:
  "\<not> is_done w out \<Longrightarrow>
   check_targets out fl w =
     (if \<forall>g\<in>set fl. isfile w g then (Inr (), w)
      else (case find (\<lambda>g. \<not> isfile (run_output out w) g) (dropWhile (isfile w) fl) of
              None \<Rightarrow> (Inr (), run_output out w)
            | Some g \<Rightarrow> (Inl (ExitWithError (unable_msg g out) INTERNAL_ERROR), run_output out w)))"
proof (induction fl)
  case Nil
  then show ?case by simp
next
  case (Cons g0 fl)
  show ?case
  proof (cases "isfile w g0")
    case True
    with Cons show ?thesis by simp
  next
    case False
    then show ?thesis
      using Cons.prems by (simp add: Let_def check_targets_done run_output_is_done)
  qed
qed

lemma check_targets_error:
  assumes a: "check_targets out fl w = (Inl e, w')"
  shows "\<exists>g\<in>set fl. \<not> isfile w' g \<and> e = ExitWithError (unable_msg g out) INTERNAL_ERROR"
proof (cases "is_done w out")
  case True
  show ?thesis using a True
    by (auto simp: check_targets_done find_Some_iff split: option.splits)
next
  case False
  show ?thesis using a False
    by (auto simp: check_targets_not_done find_Some_iff split: option.splits if_splits dest: set_dropWhileD)
      (metis nth_mem set_dropWhileD)
qed

lemma check_targets_error_done:
  assumes a: "check_targets out fl w = (Inl e, w')"
  shows "is_done w' out"
proof (cases "is_done w out")
  case True
  show ?thesis using a True
    by (auto simp: check_targets_done split: option.splits)
next
  case False
  show ?thesis using a False
    by (auto simp: check_targets_not_done run_output_is_done split: option.splits if_splits)
qed









text \<open>
  C5 (as amended). Both failures end the process through \<open>GS.exit_with_error\<close> and
  neither is a \<open>KiPlotConfigurationError\<close>; a declared target that is absent once the
  producer is done is reported with the code \<open>INTERNAL_ERROR\<close>, while a producer that
  is not registered is reported with the code \<open>WRONG_ARGUMENTS\<close>.
\<close>

theorem resolution_errors_classified:
  "(get_output reg (source f) = None \<longrightarrow>
      get_from_output reg par f no_out_run w
        = (Inl (ExitWithError (unknown_msg (source f) par) WRONG_ARGUMENTS), w))
   \<and> (\<forall>out e w'. get_output reg (source f) = Some out
          \<and> get_from_output reg par f no_out_run w = (Inl e, w') \<longrightarrow>
          is_done w' out \<and>
          (\<exists>g\<in>set (targets out). \<not> isfile w' g
              \<and> e = ExitWithError (unable_msg g out) INTERNAL_ERROR))
   \<and> (\<forall>e w' m. get_from_output reg par f no_out_run w = (Inl e, w') \<longrightarrow>
          e \<noteq> KiPlotConfigurationError m)"
proof -
  have 1: "get_output reg (source f) = None \<longrightarrow>
      get_from_output reg par f no_out_run w
        = (Inl (ExitWithError (unknown_msg (source f) par) WRONG_ARGUMENTS), w)"
    by (simp add: get_from_output_def)
  have 2: "is_done w' out \<and>
          (\<exists>g\<in>set (targets out). \<not> isfile w' g
              \<and> e = ExitWithError (unable_msg g out) INTERNAL_ERROR)"
    if "get_output reg (source f) = Some out"
      and "get_from_output reg par f no_out_run w = (Inl e, w')" for out e w'
  proof -
    from that have "check_targets out (targets out) w = (Inl e, w')"
      by (auto simp: get_from_output_def Let_def split: if_splits prod.splits sum.splits)
    then show ?thesis
      using check_targets_error check_targets_error_done by blast
  qed
  have 3: "e \<noteq> KiPlotConfigurationError m"
    if "get_from_output reg par f no_out_run w = (Inl e, w')" for e w' m
  proof (cases "get_output reg (source f)")
    case None
    with that 1 show ?thesis by auto
  next
    case (Some out)
    with that 2 show ?thesis by blast
  qed
  from 1 2 3 show ?thesis by blast
qed

theorem resolution_errors_classified_witness:
  "get_from_output [] ''copy'' ex_output_spec False ex_world
     = (Inl (ExitWithError ''Unknown output `prod` selected in copy'' WRONG_ARGUMENTS), ex_world)
   \<and> is_done (run_output ex_idle_producer ex_world) ex_idle_producer
   \<and> (\<exists>g\<in>set (targets ex_idle_producer).
          \<not> isfile (run_output ex_idle_producer ex_world) g
          \<and> ExitWithError ''Unable to generate `/w/out/x.bin` from prod'' INTERNAL_ERROR
              = ExitWithError (unable_msg g ex_idle_producer) INTERNAL_ERROR)"
proof -
  have h1: "get_output [] (source ex_output_spec) = None" by code_simp
  have m: "unknown_msg (source ex_output_spec) ''copy''
             = ''Unknown output `prod` selected in copy''" by code_simp
  have k1: "get_output [ex_idle_producer] (source ex_output_spec) = Some ex_idle_producer"
    by code_simp
  have k2: "get_from_output [ex_idle_producer] ''copy'' ex_output_spec False ex_world
      = (Inl (ExitWithError ''Unable to generate `/w/out/x.bin` from prod'' INTERNAL_ERROR),
         run_output ex_idle_producer ex_world)"
    by code_simp
  note a = resolution_errors_classified [of "[]" ex_output_spec "''copy''" False ex_world]
  note b = resolution_errors_classified
    [of "[ex_idle_producer]" ex_output_spec "''copy''" False ex_world]
  from a h1 m have 1: "get_from_output [] ''copy'' ex_output_spec False ex_world
     = (Inl (ExitWithError ''Unknown output `prod` selected in copy'' WRONG_ARGUMENTS), ex_world)"
    by simp
  from b k1 k2 have 2: "is_done (run_output ex_idle_producer ex_world) ex_idle_producer
   \<and> (\<exists>g\<in>set (targets ex_idle_producer).
          \<not> isfile (run_output ex_idle_producer ex_world) g
          \<and> ExitWithError ''Unable to generate `/w/out/x.bin` from prod'' INTERNAL_ERROR
              = ExitWithError (unable_msg g ex_idle_producer) INTERNAL_ERROR)"
    by blast
  from 1 2 show ?thesis by blast
qed

theorem unknown_output_code_counterexample:
  "fst (get_from_output [] ''copy'' ex_output_spec False ex_world)
     = Inl (ExitWithError ''Unknown output `prod` selected in copy'' WRONG_ARGUMENTS)
   \<and> WRONG_ARGUMENTS \<noteq> INTERNAL_ERROR"
  by code_simp

section \<open>Properties of the copy loop\<close>




text \<open>
  A run with two specifications: the first copies \<open>/w/a.csv\<close> into the output
  directory, the second collects \<open>keep.txt\<close> from the output directory itself. The
  run fails on the second entry, after the first file has been written.
\<close>

theorem self_copy_after_mutation_counterexample:
  "fst (run (ex_options [ex_csv_spec, ex_out_txt_spec]) ex_gs [] ''/w/out'' ex_self_world)
     = Inl (KiPlotConfigurationError
              ''Trying to copy /w/out/keep.txt over itself /w/out/keep.txt'')
   \<and> ops (snd (run (ex_options [ex_csv_spec, ex_out_txt_spec]) ex_gs [] ''/w/out'' ex_self_world))
       = [Copy2 ''/w/a.csv'' ''/w/out/a.csv'']
   \<and> lookup ex_self_world ''/w/out/a.csv'' = None
   \<and> lookup (snd (run (ex_options [ex_csv_spec, ex_out_txt_spec]) ex_gs [] ''/w/out'' ex_self_world))
         ''/w/out/a.csv'' = Some (File 3 ''A'')"
  by code_simp

lemma stat_warnings [simp]: "stat (w\<lparr>warnings := x\<rparr>) p = stat w p"
  by (simp add: stat_def key_def)

lemma samefile_warnings [simp]: "samefile (w\<lparr>warnings := x\<rparr>) a b = samefile w a b"
  by (simp add: samefile_def cong: option.case_cong)

lemma stat_empty [simp]: "stat w [] = None"
  by (simp add: stat_def)

lemma samefile_nonempty:
  "samefile w a b = Some t \<Longrightarrow> a \<noteq> [] \<and> b \<noteq> []"
  by (auto simp: samefile_def split: option.splits)

lemma warn_copyover_ok:
  "src \<noteq> [] \<Longrightarrow> prev \<noteq> [] \<Longrightarrow> dst \<noteq> [] \<Longrightarrow>
   warn_copyover src prev dst w
     = (Inr (), w\<lparr>warnings := warnings w @
          [W_COPYOVER (projr (may_be_rel (cwd w) src)) (projr (may_be_rel (cwd w) prev))
             (projr (may_be_rel (cwd w) dst))]\<rparr>)"
  by (simp add: warn_copyover_def may_be_rel_def relpath_e_def)

text \<open>
  C3 (as amended). An entry whose source and destination are the same file when the entry
  is reached (the directory of the destination then exists) fails with the configuration
  error, and the loop stops there; the entry itself has changed nothing: the file system,
  the log of mutations and the identities handed out are those found when the entry was
  reached. What earlier entries of the run have written stays written.
\<close>

theorem self_copy_fails_before_mutation:
  assumes "samefile w src (join outp d) = Some True"
    and "isdir w (dirname (join outp d))"
    and "\<forall>prev. map_of copied (join outp d) = Some prev \<longrightarrow> prev \<noteq> []"
  shows "\<exists>w'. copy_entry link outp (Some src, d) copied w
            = (Inl (KiPlotConfigurationError (self_copy_msg src (join outp d))), w')
          \<and> copy_loop link outp ((Some src, d) # rest) copied w
            = (Inl (KiPlotConfigurationError (self_copy_msg src (join outp d))), w')
          \<and> fs w' = fs w \<and> ops w' = ops w \<and> next_ino w' = next_ino w"
proof -
  let ?dst = "join outp d"
  let ?err = "Inl (KiPlotConfigurationError (self_copy_msg src ?dst))"
  from assms(1) have ne: "src \<noteq> []" "?dst \<noteq> []"
    using samefile_nonempty by blast+
  have "\<exists>w'. copy_entry link outp (Some src, d) copied w = (?err, w')
          \<and> fs w' = fs w \<and> ops w' = ops w \<and> next_ino w' = next_ino w"
  proof (cases "map_of copied ?dst")
    case None
    then show ?thesis using assms(1,2)
      by (simp add: copy_entry_def thn_def Let_def)
  next
    case (Some prev)
    with assms(3) have "prev \<noteq> []" by blast
    from warn_copyover_ok [OF ne(1) this ne(2)]
    show ?thesis using assms(1,2) Some
      by (simp add: copy_entry_def thn_def Let_def)
  qed
  then show ?thesis by auto
qed

theorem self_copy_fails_before_mutation_witness:
  "samefile ex_self_world ''/w/out/keep.txt'' (join ''/w/out/'' ''keep.txt'') = Some True
   \<and> isdir ex_self_world (dirname (join ''/w/out/'' ''keep.txt''))
   \<and> (\<exists>w'. copy_entry False ''/w/out/'' (Some ''/w/out/keep.txt'', ''keep.txt'') [] ex_self_world
            = (Inl (KiPlotConfigurationError
                 (self_copy_msg ''/w/out/keep.txt'' (join ''/w/out/'' ''keep.txt''))), w')
          \<and> copy_loop False ''/w/out/'' [(Some ''/w/out/keep.txt'', ''keep.txt'')] [] ex_self_world
            = (Inl (KiPlotConfigurationError
                 (self_copy_msg ''/w/out/keep.txt'' (join ''/w/out/'' ''keep.txt''))), w')
          \<and> fs w' = fs ex_self_world \<and> ops w' = ops ex_self_world
          \<and> next_ino w' = next_ino ex_self_world)"
proof -
  have h1: "samefile ex_self_world ''/w/out/keep.txt'' (join ''/w/out/'' ''keep.txt'') = Some True"
    by code_simp
  have h2: "isdir ex_self_world (dirname (join ''/w/out/'' ''keep.txt''))"
    by code_simp
  have h3: "\<forall>prev. map_of [] (join ''/w/out/'' ''keep.txt'') = Some prev \<longrightarrow> prev \<noteq> []"
    by simp
  from h1 h2 self_copy_fails_before_mutation [OF h1 h2 h3, of False "[]"]
  show ?thesis by blast
qed

section \<open>Properties of the 3D models and of the footprints\<close>





lemma inr_collapse3: "\<not> isl x \<Longrightarrow> x = Inr (fst (projr x), fst (snd (projr x)), snd (snd (projr x)))"
  by (cases x) auto



lemma step_not_wrl: "suffix ''.step'' fn \<Longrightarrow> \<not> suffix ''.wrl'' fn"
proof
  assume a: "suffix ''.step'' fn" and b: "suffix ''.wrl'' fn"
  from suffix_same_cases [OF a b] show False
    by (auto simp: suffix_def Cons_eq_append_conv)
qed

lemma counterpart_mem:
  "x \<in> set (counterpart w L fn) \<longleftrightarrow>
     isfile w x \<and> x \<notin> set L \<and>
     ((suffix ''.wrl'' fn \<and> x = take (length fn - 4) fn @ ''.step'')
      \<or> (suffix ''.step'' fn \<and> x = take (length fn - 5) fn @ ''.wrl''))"
  using step_not_wrl [of fn] by (auto simp: counterpart_def Let_def)

lemma counterparts_mem:
  "x \<in> set (counterparts w L) \<longleftrightarrow>
     isfile w x \<and> x \<notin> set L \<and>
     (\<exists>fn\<in>set L. (suffix ''.wrl'' fn \<and> x = take (length fn - 4) fn @ ''.step'')
      \<or> (suffix ''.step'' fn \<and> x = take (length fn - 5) fn @ ''.wrl''))"
  by (auto simp: counterparts_def counterpart_mem)

lemma get_3d_models_files:
  assumes "fst (get_3d_models self rd g f mode_project dry w) = Inr (fl, ex, f')"
  shows "fl = download_models g (source f)
              @ fnmatch_filter
                  (counterparts (snd (get_3d_models self rd g f mode_project dry w))
                     (download_models g (source f)))
                  (source f)"
  using assms
  by (auto simp: get_3d_models_def thn_def Let_def split: prod.splits sum.splits if_splits)

text \<open>
  C6 (as amended). For a model of the list that ends in \<open>.wrl\<close> (respectively
  \<open>.step\<close>), the counterpart with the other extension is in the returned list when it
  exists on disk, is not already a model of the list, and matches the pattern
  \<open>source\<close> of the specification.
\<close>

theorem counterpart_included:
  assumes "fst (get_3d_models self rd g f mode_project dry w) = Inr (fl, ex, f')"
    and "fn \<in> set (download_models g (source f))"
    and "(suffix ''.wrl'' fn \<and> sib = take (length fn - 4) fn @ ''.step'')
         \<or> (suffix ''.step'' fn \<and> sib = take (length fn - 5) fn @ ''.wrl'')"
    and "isfile (snd (get_3d_models self rd g f mode_project dry w)) sib"
    and "sib \<notin> set (download_models g (source f))"
    and "fnmatch sib (source f)"
  shows "sib \<in> set fl \<and> fn \<in> set fl"
proof -
  let ?w' = "snd (get_3d_models self rd g f mode_project dry w)"
  let ?L = "download_models g (source f)"
  have "sib \<in> set (counterparts ?w' ?L)"
    unfolding counterparts_mem using assms(2-5) by blast
  then have "sib \<in> set (fnmatch_filter (counterparts ?w' ?L) (source f))"
    using assms(6) by (simp add: fnmatch_filter_def)
  then show ?thesis
    using assms(2) by (simp add: get_3d_models_files [OF assms(1)])
qed

theorem counterpart_included_witness:
  "''/m/a.wrl'' \<in> set (download_models ex_wrl_gs (source (ex_wrl_spec ''*'')))
   \<and> isfile (snd (get_3d_models (ex_options [ex_wrl_spec ''*'']) [] ex_wrl_gs (ex_wrl_spec ''*'')
                False False ex_wrl_world)) ''/m/a.step''
   \<and> fnmatch ''/m/a.step'' (source (ex_wrl_spec ''*''))
   \<and> ''/m/a.step'' \<in> set (fst (projr (fst (get_3d_models (ex_options [ex_wrl_spec ''*'']) []
          ex_wrl_gs (ex_wrl_spec ''*'') False False ex_wrl_world))))
   \<and> ''/m/a.wrl'' \<in> set (fst (projr (fst (get_3d_models (ex_options [ex_wrl_spec ''*'']) []
          ex_wrl_gs (ex_wrl_spec ''*'') False False ex_wrl_world))))"
proof -
  let ?X = "get_3d_models (ex_options [ex_wrl_spec ''*'']) [] ex_wrl_gs (ex_wrl_spec ''*'')
                False False ex_wrl_world"
  have "\<not> isl (fst ?X)" by code_simp
  then have h1: "fst ?X = Inr (fst (projr (fst ?X)), fst (snd (projr (fst ?X))),
                    snd (snd (projr (fst ?X))))"
    by (rule inr_collapse3)
  have h2: "''/m/a.wrl'' \<in> set (download_models ex_wrl_gs (source (ex_wrl_spec ''*'')))"
    by code_simp
  have h3: "(suffix ''.wrl'' ''/m/a.wrl''
               \<and> ''/m/a.step'' = take (length ''/m/a.wrl'' - 4) ''/m/a.wrl'' @ ''.step'')
         \<or> (suffix ''.step'' ''/m/a.wrl''
               \<and> ''/m/a.step'' = take (length ''/m/a.wrl'' - 5) ''/m/a.wrl'' @ ''.wrl'')"
    by code_simp
  have h4: "isfile (snd ?X) ''/m/a.step''" by code_simp
  have h5: "''/m/a.step'' \<notin> set (download_models ex_wrl_gs (source (ex_wrl_spec ''*'')))"
    by code_simp
  have h6: "fnmatch ''/m/a.step'' (source (ex_wrl_spec ''*''))" by code_simp
  from h2 h4 h6 counterpart_included [OF h1 h2 h3 h4 h5 h6] show ?thesis by blast
qed

theorem counterpart_filtered_counterexample:
  "''/m/a.wrl'' \<in> set (download_models ex_wrl_gs (source (ex_wrl_spec ''*.wrl'')))
   \<and> suffix ''.wrl'' ''/m/a.wrl''
   \<and> isfile ex_wrl_world ''/m/a.step''
   \<and> ''/m/a.step'' \<notin> set (download_models ex_wrl_gs (source (ex_wrl_spec ''*.wrl'')))
   \<and> get_files (ex_options [ex_wrl_spec ''*.wrl'']) ex_wrl_gs [] False ex_wrl_world
       = (Inr [(Some ''/m/a.wrl'', ''a.wrl'')], ex_wrl_world)"
  by code_simp

lemma extra_sources_append [simp]:
  "extra_sources (xs @ ys) = extra_sources xs @ extra_sources ys"
  by (induction xs rule: extra_sources.induct) auto

lemma isfile_warnings [simp]: "isfile (w\<lparr>warnings := x\<rparr>) p = isfile w p"
  by (simp add: isfile_def stat_def key_def)

lemma footprint_fold_inv:
  assumes "fold (footprint_step g olb olbp) ms ((al, ex, ad), w) = ((al', ex', ad'), w')"
    and "distinct (map fst al)" and "distinct (extra_sources ex)"
    and "set (extra_sources ex) \<subseteq> set ad"
  shows "distinct (map fst al') \<and> distinct (extra_sources ex')
       \<and> set (extra_sources ex') \<subseteq> set ad'
       \<and> set (map fst al') = set (map fst al)
            \<union> {n. n \<in> fst ` set ms \<and> fp_nick_to_path g n \<noteq> None}
       \<and> lib_tables w' = lib_tables w"
  using assms
proof (induction ms arbitrary: al ex ad w)
  case Nil
  then show ?case by simp
next
  case (Cons m ms)
  obtain al1 ex1 ad1 w1 where s: "footprint_step g olb olbp m ((al, ex, ad), w) = ((al1, ex1, ad1), w1)"
    by (metis prod.exhaust)
  have inv1: "distinct (map fst al1) \<and> distinct (extra_sources ex1)
       \<and> set (extra_sources ex1) \<subseteq> set ad1
       \<and> set (map fst al1) = set (map fst al)
            \<union> {n. n = fst m \<and> fp_nick_to_path g n \<noteq> None}
       \<and> lib_tables w1 = lib_tables w"
    using s Cons.prems(2-4)
    by (auto simp: footprint_step_def Let_def map_of_eq_None_iff
          split: option.splits if_splits) force+
  from Cons.prems(1) s have "fold (footprint_step g olb olbp) ms ((al1, ex1, ad1), w1)
      = ((al', ex', ad'), w')" by simp
  from Cons.IH [OF this] inv1 show ?case by auto
qed

text \<open>
  C10 (as amended). Among the extra files of \<open>copy_footprints\<close> no footprint source
  occurs twice, however many components use it. The table handed to the table writer
  (when the pass is not dry) has exactly one alias for each library nickname of the board
  that the footprint library table knows; a nickname it does not know gets a warning and
  no alias. A dry pass writes no table.
\<close>

theorem footprints_once_and_aliases:
  "\<exists>aliases.
     lib_tables (snd (copy_footprints self g dst False w))
       = lib_tables w @ [(join (join (self_output_dir self) dst) FP_LIB_TABLE, True, aliases)]
     \<and> distinct (map fst aliases)
     \<and> set (map fst aliases)
         = {n. n \<in> fst ` set (modules g) \<and> fp_nick_to_path g n \<noteq> None}
     \<and> distinct (extra_sources (fst (copy_footprints self g dst dry w)))
     \<and> (dry \<longrightarrow> lib_tables (snd (copy_footprints self g dst dry w)) = lib_tables w)"
proof -
  let ?olb = "join (join (self_output_dir self) dst) ''footprints''"
  let ?olbp = "join ''${KIPRJMOD}'' ''footprints''"
  obtain al ex ad w1 where c: "collect_footprints g ?olb ?olbp w = ((al, ex, ad), w1)"
    by (metis prod.exhaust)
  then have "fold (footprint_step g ?olb ?olbp) (modules g) (([], [], []), w) = ((al, ex, ad), w1)"
    by (simp add: collect_footprints_def)
  from footprint_fold_inv [OF this] have inv: "distinct (map fst al)" "distinct (extra_sources ex)"
    "set (map fst al) = {n. n \<in> fst ` set (modules g) \<and> fp_nick_to_path g n \<noteq> None}"
    "lib_tables w1 = lib_tables w"
    by auto
  show ?thesis
    using c inv by (intro exI [of _ al]) (simp add: copy_footprints_def Let_def)
qed

theorem missing_library_no_alias_counterexample:
  "''Ghost'' \<in> set (map fst (modules ex_gs))
   \<and> fp_nick_to_path ex_gs ''Ghost'' = None
   \<and> map (\<lambda>t. (fst t, fst (snd t), map fst (snd (snd t))))
        (lib_tables (snd (copy_footprints (ex_options []) ex_gs ''prj'' False ex_fp_world)))
       = [(''/w/out/prj/fp-lib-table'', True, [''Resistors'', ''Caps''])]
   \<and> fst (copy_footprints (ex_options []) ex_gs ''prj'' False ex_fp_world)
       = [Pair ''/lib/Resistors.pretty/R0603.kicad_mod''
               ''/w/out/prj/footprints/Resistors.pretty/R0603.kicad_mod'',
          Pair ''/lib/Caps.pretty/C0402.kicad_mod''
               ''/w/out/prj/footprints/Caps.pretty/C0402.kicad_mod'',
          Gen ''/w/out/prj/fp-lib-table'']"
  by code_simp

theorem footprints_once_and_aliases_witness:
  "\<exists>aliases.
     lib_tables (snd (copy_footprints (ex_options []) ex_gs ''prj'' False ex_fp_world))
       = lib_tables ex_fp_world
           @ [(join (join (self_output_dir (ex_options [])) ''prj'') FP_LIB_TABLE, True, aliases)]
     \<and> distinct (map fst aliases)
     \<and> set (map fst aliases)
         = {n. n \<in> fst ` set (modules ex_gs) \<and> fp_nick_to_path ex_gs n \<noteq> None}
     \<and> distinct (extra_sources (fst (copy_footprints (ex_options []) ex_gs ''prj'' True ex_fp_world)))
     \<and> lib_tables (snd (copy_footprints (ex_options []) ex_gs ''prj'' True ex_fp_world))
         = lib_tables ex_fp_world"
  using footprints_once_and_aliases [of "ex_options []" ex_gs "''prj''" ex_fp_world True]
  by simp

section \<open>Properties of the collection pass\<close>

lemma adapt_files_relative:
  assumes "dest f = []" and "source_type f \<noteq> Models_3d" and "source_type f \<noteq> Project"
  shows "adapt_files self w f src_dir rd cands =
     (if [] \<in> set cands then Inl (ValueError ''no path specified'')
      else Inr (map (\<lambda>fname.
                  (Some (if follow_links self then realpath w fname else abspath (cwd w) fname),
                   relpath (cwd w) fname src_dir)) cands))"
  using assms
  by (induction cands) (auto simp: compute_dest_def relpath_e_def Let_def)

text \<open>
  C7. For a specification of type \<open>files\<close> with an empty \<open>dest\<close>: the candidates are
  the expansion of the pattern joined to the working directory (\<open>glob\<close>, which follows
  \<open>**\<close> through the directories), the filter is applied to each candidate path as the
  expansion gives it, and each candidate that passes is resolved to the pair of its real
  path and of its path relative to the working directory; the state is left as it was.
  (A candidate with an empty name, which no directory holds, would make \<open>relpath\<close>
  raise.)
\<close>

theorem files_spec_resolution:
  assumes "source_type f = Files" and "dest f = []"
  shows "resolve_spec self g reg rd no_out_run f w =
     (let cands = filter (filter_f f)
                    (glob w (join (cwd w) (expand_filename_both g (source f))))
      in if [] \<in> set cands then Inl (ValueError ''no path specified'')
         else Inr (map (\<lambda>fname.
                     (Some (if follow_links self then realpath w fname
                            else abspath (cwd w) fname),
                      relpath (cwd w) fname (cwd w))) cands),
      w)"
proof -
  have t: "source_type f \<noteq> Models_3d" "source_type f \<noteq> Project" "source_type f \<noteq> Output"
    "source_type f \<noteq> Out_files"
    using assms(1) by simp_all
  show ?thesis
    using t assms(2)
    by (simp add: resolve_spec_def candidates_def thn_def Let_def adapt_files_relative)
qed

theorem files_spec_resolution_witness:
  "source_type ex_csv_spec = Files \<and> dest ex_csv_spec = []
   \<and> resolve_spec (ex_options [ex_csv_spec]) ex_gs [] [] False ex_csv_spec ex_csv_world
       = (Inr [(Some ''/w/a.csv'', ''a.csv''), (Some ''/w/b.csv'', ''b.csv'')], ex_csv_world)
   \<and> resolve_spec (ex_options []) ex_gs [] [] False (ex_csv_spec\<lparr>source := ''**/*.csv''\<rparr>)
         ex_tree_world
       = (Inr [(Some ''/w/a.csv'', ''a.csv''), (Some ''/w/b.csv'', ''b.csv''),
               (Some ''/w/sub/d.csv'', ''sub/d.csv'')], ex_tree_world)
   \<and> get_files (ex_options [ex_csv_spec]) ex_gs [] False ex_csv_world
       = (Inr [(Some ''/w/a.csv'', ''a.csv''), (Some ''/w/b.csv'', ''b.csv'')], ex_csv_world)"
proof -
  have h1: "source_type ex_csv_spec = Files" by code_simp
  have h2: "dest ex_csv_spec = []" by code_simp
  have k1: "source_type (ex_csv_spec\<lparr>source := ''**/*.csv''\<rparr>) = Files" by code_simp
  have k2: "dest (ex_csv_spec\<lparr>source := ''**/*.csv''\<rparr>) = []" by code_simp
  have e1: "(let cands = filter (filter_f ex_csv_spec)
                    (glob ex_csv_world (join (cwd ex_csv_world)
                       (expand_filename_both ex_gs (source ex_csv_spec))))
      in if [] \<in> set cands then Inl (ValueError ''no path specified'')
         else Inr (map (\<lambda>fname.
                     (Some (if follow_links (ex_options [ex_csv_spec]) then realpath ex_csv_world fname
                            else abspath (cwd ex_csv_world) fname),
                      relpath (cwd ex_csv_world) fname (cwd ex_csv_world))) cands),
      ex_csv_world)
     = (Inr [(Some ''/w/a.csv'', ''a.csv''), (Some ''/w/b.csv'', ''b.csv'')], ex_csv_world)"
    by code_simp
  have e2: "(let cands = filter (filter_f (ex_csv_spec\<lparr>source := ''**/*.csv''\<rparr>))
                    (glob ex_tree_world (join (cwd ex_tree_world)
                       (expand_filename_both ex_gs (source (ex_csv_spec\<lparr>source := ''**/*.csv''\<rparr>)))))
      in if [] \<in> set cands then Inl (ValueError ''no path specified'')
         else Inr (map (\<lambda>fname.
                     (Some (if follow_links (ex_options []) then realpath ex_tree_world fname
                            else abspath (cwd ex_tree_world) fname),
                      relpath (cwd ex_tree_world) fname (cwd ex_tree_world))) cands),
      ex_tree_world)
     = (Inr [(Some ''/w/a.csv'', ''a.csv''), (Some ''/w/b.csv'', ''b.csv''),
               (Some ''/w/sub/d.csv'', ''sub/d.csv'')], ex_tree_world)"
    by code_simp
  note a = files_spec_resolution [OF h1 h2, of "ex_options [ex_csv_spec]" ex_gs "[]" "[]" False
             ex_csv_world]
  note b = files_spec_resolution [OF k1 k2, of "ex_options []" ex_gs "[]" "[]" False
             ex_tree_world]
  from a have a': "resolve_spec (ex_options [ex_csv_spec]) ex_gs [] [] False ex_csv_spec ex_csv_world
       = (Inr [(Some ''/w/a.csv'', ''a.csv''), (Some ''/w/b.csv'', ''b.csv'')], ex_csv_world)"
    unfolding e1 .
  from b have b': "resolve_spec (ex_options []) ex_gs [] [] False (ex_csv_spec\<lparr>source := ''**/*.csv''\<rparr>)
         ex_tree_world
       = (Inr [(Some ''/w/a.csv'', ''a.csv''), (Some ''/w/b.csv'', ''b.csv''),
               (Some ''/w/sub/d.csv'', ''sub/d.csv'')], ex_tree_world)"
    unfolding e2 .
  have c: "get_files (ex_options [ex_csv_spec]) ex_gs [] False ex_csv_world
       = (Inr [(Some ''/w/a.csv'', ''a.csv''), (Some ''/w/b.csv'', ''b.csv'')], ex_csv_world)"
    by code_simp
  from h1 h2 a' b' c show ?thesis by blast
qed










end
